theory Spec2Isabelle
  imports Main
begin

section \<open>Protocol messages and their validation (pkg/protocol/rpc_extensions.go)\<close>

text \<open>
  Go errors are values. \<open>EOF\<close> is \<^verbatim>\<open>io.EOF\<close>; \<open>Err msg\<close> is any other plain error
  (a transport failure, a URL parse failure); \<open>ValidationError e\<close> is the struct
  \<^verbatim>\<open>&ValidationError{Err: e}\<close> and \<open>ExtendContext e ctx\<close> the wrapper of the same name.
  Format arguments of messages are not substituted: a message is its format string.
\<close>

datatype error =
    EOF
  | Err string
  | ValidationError error
  | ExtendContext error string

definition NewValidationError :: "string \<Rightarrow> error" where
  "NewValidationError msg = ValidationError (Err msg)"

text \<open>
  \<^verbatim>\<open>Status\<close> is a generated enum; the table \<^verbatim>\<open>Status_name\<close> is not part of the sources
  at hand. The constructors are the names the sources use, \<open>Status_other\<close> for any
  further entry of the table and \<open>Status_unnamed\<close> for an int32 that has no entry.
\<close>

datatype Status =
    Status_OK
  | Status_WRONG_ROUTE
  | Status_FRAGMENT_MISMATCH
  | Status_other string
  | Status_unnamed int

fun Status_Validate :: "Status \<Rightarrow> error option" where
  "Status_Validate (Status_unnamed n) = Some (NewValidationError ''invalid status (%s)'')"
| "Status_Validate _ = None"

type_synonym bytes = string

record BrokerSpec_ID =
  Zone :: string
  Suffix :: string

text \<open>A Route is opaque to the code modelled here: the ordered brokers of a journal.\<close>

type_synonym Route = "BrokerSpec_ID list"

record Header =
  BrokerId :: BrokerSpec_ID
  Route :: Route

text \<open>
  Offsets are Go \<^verbatim>\<open>int64\<close>; the validators only compare them, so they are integers here.
\<close>

record Fragment =
  Journal :: string
  Begin :: int
  End :: int
  Sum :: bytes
  CompressionCodec :: nat
  BackingStore :: string

record ReadResponse =
  Status :: Status
  Header :: "Header option"
  Route :: "Route option"
  Fragment :: "Fragment option"
  FragmentUrl :: string
  WriteHead :: int
  Offset :: int
  Content :: "bytes option"

record AppendRequest =
  Journal :: string
  Header :: "Header option"
  Content :: "bytes option"

record AppendResponse =
  Status :: Status
  Header :: "Header option"
  Route :: "Route option"
  Commit :: "Fragment option"

record ReplicateRequest =
  Journal :: string
  Route :: "Route option"
  Proposal :: "Fragment option"
  Content :: "bytes option"
  ContentDelta :: int
  Acknowledge :: bool

text \<open>
  The validators of \<^verbatim>\<open>Journal\<close>, \<^verbatim>\<open>Route\<close> and \<^verbatim>\<open>Fragment\<close> and \<^verbatim>\<open>url.Parse\<close> are
  called by the code below but defined elsewhere: they are parameters.
\<close>

record validators =
  Journal_Validate :: "string \<Rightarrow> error option"
  Route_Validate :: "Route \<Rightarrow> error option"
  Fragment_Validate :: "Fragment \<Rightarrow> error option"
  url_Parse :: "string \<Rightarrow> error option"

text \<open>Go's \<^verbatim>\<open>len\<close> of a possibly nil byte slice.\<close>

definition len_bytes :: "bytes option \<Rightarrow> nat" where
  "len_bytes c = (case c of None \<Rightarrow> 0 | Some b \<Rightarrow> length b)"

definition ReadResponse_Validate :: "validators \<Rightarrow> ReadResponse \<Rightarrow> error option" where
  "ReadResponse_Validate v m =
    (case Status_Validate (ReadResponse.Status m) of
       Some err \<Rightarrow> Some (ExtendContext err ''Status'')
     | None \<Rightarrow>
       if ReadResponse.Content m \<noteq> None then
         (if ReadResponse.Status m \<noteq> Status_OK then
            Some (NewValidationError ''unexpected Status with Content (%v)'')
          else if Offset m \<noteq> 0 then
            Some (NewValidationError ''unexpected Offset with Content (%d)'')
          else if WriteHead m \<noteq> 0 then
            Some (NewValidationError ''unexpected WriteHead with Content (%d)'')
          else if ReadResponse.Route m \<noteq> None then
            Some (NewValidationError ''unexpected Route with Content (%s)'')
          else if Fragment m \<noteq> None then
            Some (NewValidationError ''unexpected Fragment with Content (%s)'')
          else if FragmentUrl m \<noteq> [] then
            Some (NewValidationError ''unexpected FragmentUrl with Content (%s)'')
          else None)
       else
         (case (case ReadResponse.Route m of
                  None \<Rightarrow> None
                | Some r \<Rightarrow> Route_Validate v r) of
            Some err \<Rightarrow> Some (ExtendContext err ''Route'')
          | None \<Rightarrow>
            if WriteHead m < 0 then
              Some (NewValidationError ''invalid WriteHead (%d; expected >= 0)'')
            else
              (case Fragment m of
                 Some f \<Rightarrow>
                   (case Fragment_Validate v f of
                      Some err \<Rightarrow> Some (ExtendContext err ''Fragment'')
                    | None \<Rightarrow>
                      if Offset m < Begin f \<or> Offset m \<ge> End f then
                        Some (NewValidationError
                          ''invalid Offset (%d; expected %d <= offset < %d)'')
                      else if WriteHead m < End f then
                        Some (NewValidationError ''invalid WriteHead (%d; expected >= %d)'')
                      else if FragmentUrl m \<noteq> [] then
                        (case url_Parse v (FragmentUrl m) of
                           Some err \<Rightarrow>
                             Some (ExtendContext (ValidationError err) ''FragmentUrl'')
                         | None \<Rightarrow> None)
                      else None)
               | None \<Rightarrow>
                   if Offset m \<noteq> 0 then
                     Some (NewValidationError ''unexpected Offset without Fragment (%d)'')
                   else if FragmentUrl m \<noteq> [] then
                     Some (NewValidationError
                       ''unexpected FragmentUrl without Fragment (%s)'')
                   else None)))"

definition AppendRequest_Validate :: "validators \<Rightarrow> AppendRequest \<Rightarrow> error option" where
  "AppendRequest_Validate v m =
    (if AppendRequest.Journal m \<noteq> [] then
       (case Journal_Validate v (AppendRequest.Journal m) of
          Some err \<Rightarrow> Some (ExtendContext err ''Journal'')
        | None \<Rightarrow>
          if len_bytes (AppendRequest.Content m) \<noteq> 0 then
            Some (NewValidationError ''unexpected Content'')
          else None)
     else if len_bytes (AppendRequest.Content m) = 0 then
       Some (NewValidationError ''expected Content'')
     else None)"

definition AppendResponse_Validate :: "validators \<Rightarrow> AppendResponse \<Rightarrow> error option" where
  "AppendResponse_Validate v m =
    (case Status_Validate (AppendResponse.Status m) of
       Some err \<Rightarrow> Some (ExtendContext err ''Status'')
     | None \<Rightarrow>
       (case AppendResponse.Route m of
          None \<Rightarrow> Some (NewValidationError ''expected Route'')
        | Some r \<Rightarrow>
          (case Route_Validate v r of
             Some err \<Rightarrow> Some (ExtendContext err ''Route'')
           | None \<Rightarrow>
             (case Commit m of
                None \<Rightarrow> Some (NewValidationError ''expected Commit'')
              | Some c \<Rightarrow>
                (case Fragment_Validate v c of
                   Some err \<Rightarrow> Some (ExtendContext err ''Commit'')
                 | None \<Rightarrow> None)))))"

definition ReplicateRequest_Validate :: "validators \<Rightarrow> ReplicateRequest \<Rightarrow> error option" where
  "ReplicateRequest_Validate v m =
    (if ReplicateRequest.Journal m \<noteq> [] then
       (case Journal_Validate v (ReplicateRequest.Journal m) of
          Some err \<Rightarrow> Some (ExtendContext err ''Journal'')
        | None \<Rightarrow>
          (case ReplicateRequest.Route m of
             None \<Rightarrow> Some (NewValidationError ''expected Route with Journal'')
           | Some r \<Rightarrow>
             (case Route_Validate v r of
                Some err \<Rightarrow> Some (ExtendContext err ''Route'')
              | None \<Rightarrow>
                (case Proposal m of
                   None \<Rightarrow> Some (NewValidationError ''expected Proposal with Journal'')
                 | Some p \<Rightarrow>
                   (case Fragment_Validate v p of
                      Some err \<Rightarrow> Some (ExtendContext err ''Proposal'')
                    | None \<Rightarrow>
                      if Fragment.Journal p \<noteq> ReplicateRequest.Journal m then
                        Some (NewValidationError
                          ''Journal and Proposal.Journal mismatch (%s vs %s)'')
                      else if ReplicateRequest.Content m \<noteq> None then
                        Some (NewValidationError
                          ''unexpected Content with Journal (len %d)'')
                      else if ContentDelta m \<noteq> 0 then
                        Some (NewValidationError
                          ''unexpected ContentDelta with Journal (%d)'')
                      else if Acknowledge m = False then
                        Some (NewValidationError ''expected Acknowledge with Journal'')
                      else None)))))
     else if ReplicateRequest.Route m \<noteq> None then
       Some (NewValidationError ''unexpected Route without Journal (%s)'')
     else
       (case Proposal m of
          Some p \<Rightarrow>
            (case Fragment_Validate v p of
               Some err \<Rightarrow> Some (ExtendContext err ''Proposal'')
             | None \<Rightarrow>
               if ReplicateRequest.Content m \<noteq> None then
                 Some (NewValidationError ''unexpected Content with Proposal (len %d)'')
               else if ContentDelta m \<noteq> 0 then
                 Some (NewValidationError ''unexpected ContentDelta with Proposal (%d)'')
               else None)
        | None \<Rightarrow>
            if ReplicateRequest.Content m = None then
              Some (NewValidationError ''expected Content or Proposal'')
            else if Acknowledge m then
              Some (NewValidationError ''unexpected Acknowledge with Content'')
            else if ContentDelta m < 0 then
              Some (NewValidationError ''invalid ContentDelta (%d; expected >= 0)'')
            else None))"

text \<open>
  Modelled from the spec: the validators of Journal, Route and Fragment and the URL
  parser are not in the sources. The spec's Fragment invariant is \<open>Begin \<le> End\<close>; a
  journal must be named; nothing is said of routes and URLs, which are accepted.
  These serve as one concrete instance of the parameters.
\<close>

definition spec_validators :: validators where
  "spec_validators =
    \<lparr> Journal_Validate = (\<lambda>j. if j = [] then Some (NewValidationError ''invalid Journal'')
                              else None),
      Route_Validate = (\<lambda>r. None),
      Fragment_Validate = (\<lambda>f. if Begin f > End f
                               then Some (NewValidationError ''invalid Fragment'')
                               else None),
      url_Parse = (\<lambda>u. None) \<rparr>"


section \<open>The appender (broker, Append RPC)\<close>

text \<open>
  A Go call either returns, panics, or never returns (a loop that waits for a message
  that is never delivered).
\<close>

datatype 'a go = Panics string | Blocks | Returns 'a

text \<open>Go's \<^verbatim>\<open>int64\<close> arithmetic wraps around in two's complement.\<close>

definition int64 :: "int \<Rightarrow> int" where
  "int64 x = (x + 2 ^ 63) mod 2 ^ 64 - 2 ^ 63"

text \<open>
  Modelled from the spec: \<^verbatim>\<open>Fragment.ContentLength\<close> is not in the sources; the spec
  gives a fragment the length \<open>End - Begin\<close>.
\<close>

definition ContentLength :: "Fragment \<Rightarrow> int" where
  "ContentLength f = int64 (End f - Begin f)"

record JournalSpec_Fragment =
  Length :: int
  CompressionCodec :: nat
  Stores :: "string list"

definition updateProposal :: "Fragment \<Rightarrow> JournalSpec_Fragment \<Rightarrow> Fragment \<times> bool" where
  "updateProposal cur spec =
    (if ContentLength cur > 0 \<and> ContentLength cur < Length spec then (cur, False)
     else
       let next = cur\<lparr> Begin := End cur,
                        Fragment.CompressionCodec := JournalSpec_Fragment.CompressionCodec spec,
                        BackingStore := (case Stores spec of [] \<Rightarrow> [] | s # _ \<Rightarrow> s) \<rparr>
       in (next, next \<noteq> cur))"

text \<open>
  The pipeline and its spool are defined outside the sources at hand. The appender uses
  them through the operations below, which are parameters over a pipeline state \<open>'p\<close>:
  \<open>scatter\<close> sends one request to every peer, \<open>spool_Fragment\<close> reads
  \<^verbatim>\<open>pln.spool.Fragment.Fragment\<close>, \<open>spool_Next\<close> is \<^verbatim>\<open>pln.spool.Next()\<close>, and \<open>sha1_sum\<close>
  is the digest of the bytes written to \<^verbatim>\<open>reqSummer\<close>.
\<close>

record 'p pipeline_ops =
  scatter :: "ReplicateRequest \<Rightarrow> 'p \<Rightarrow> 'p"
  sendErr :: "'p \<Rightarrow> error option"
  recvErr :: "'p \<Rightarrow> error option"
  closeSend :: "'p \<Rightarrow> 'p"
  gatherOK :: "'p \<Rightarrow> 'p"
  gatherEOF :: "'p \<Rightarrow> 'p"
  spool_Fragment :: "'p \<Rightarrow> Fragment"
  spool_Next :: "'p \<Rightarrow> Fragment"
  pln_Header :: "'p \<Rightarrow> Header option"
  sha1_sum :: "bytes \<Rightarrow> bytes"

text \<open>
  The appender holds a pointer to its pipeline; the model keeps the pipeline's state in
  the field \<open>pln\<close> and hands it back with the appender. \<open>reqSummer\<close> is the running hash,
  kept as the bytes written to it so far.
\<close>

record 'p appender =
  pln :: 'p
  spec :: JournalSpec_Fragment
  reqFragment :: "Fragment option"
  reqSummer :: bytes
  reqErr :: "error option"

text \<open>Composite literals of \<^verbatim>\<open>ReplicateRequest\<close>: unnamed fields are zero.\<close>

definition proposalRequest :: "Fragment \<Rightarrow> bool \<Rightarrow> ReplicateRequest" where
  "proposalRequest proposal ack =
    \<lparr> ReplicateRequest.Journal = [], Route = None, Proposal = Some proposal,
      Content = None, ContentDelta = 0, Acknowledge = ack \<rparr>"

definition contentRequest :: "bytes option \<Rightarrow> int \<Rightarrow> ReplicateRequest" where
  "contentRequest content delta =
    \<lparr> ReplicateRequest.Journal = [], Route = None, Proposal = None,
      Content = content, ContentDelta = delta, Acknowledge = False \<rparr>"

definition beginAppending ::
  "'p pipeline_ops \<Rightarrow> 'p \<Rightarrow> JournalSpec_Fragment \<Rightarrow> 'p appender" where
  "beginAppending ops p sp =
    (let (proposal, update) = updateProposal (spool_Fragment ops p) sp;
         p' = (if update then scatter ops (proposalRequest proposal False) p else p)
     in \<lparr> pln = p',
          spec = sp,
          reqFragment = Some \<lparr> Fragment.Journal = Fragment.Journal (spool_Fragment ops p'),
                                Begin = End (spool_Fragment ops p'),
                                End = End (spool_Fragment ops p'),
                                Sum = [],
                                Fragment.CompressionCodec = 0,
                                BackingStore = [] \<rparr>,
          reqSummer = [],
          reqErr = None \<rparr>)"

text \<open>
  \<^verbatim>\<open>onRecv(req, err)\<close>: the argument is what \<^verbatim>\<open>stream.RecvMsg\<close> gave, an error or a
  request. Both branches dereference \<^verbatim>\<open>a.reqFragment\<close> before they scatter.
\<close>

definition onRecv ::
  "'p pipeline_ops \<Rightarrow> validators \<Rightarrow> 'p appender \<Rightarrow> error + AppendRequest
     \<Rightarrow> (bool \<times> 'p appender) go" where
  "onRecv ops v a r =
    (case reqFragment a of
       None \<Rightarrow> Panics ''nil pointer dereference''
     | Some rf \<Rightarrow>
       (case (case r of Inl e \<Rightarrow> Some e | Inr req \<Rightarrow> AppendRequest_Validate v req) of
          Some err \<Rightarrow>
            (let rf' = rf\<lparr> Sum := sha1_sum ops (reqSummer a) \<rparr> in
             if err = EOF then
               Returns (False,
                 a\<lparr> reqFragment := Some rf',
                    pln := scatter ops (proposalRequest (spool_Next ops (pln a)) True) (pln a) \<rparr>)
             else
               Returns (False,
                 a\<lparr> reqErr := Some err,
                    reqFragment := None,
                    pln := scatter ops (proposalRequest (spool_Fragment ops (pln a)) True)
                             (pln a) \<rparr>))
        | None \<Rightarrow>
            (let content = (case r of Inl e \<Rightarrow> None | Inr req \<Rightarrow> AppendRequest.Content req);
                 p' = scatter ops (contentRequest content (ContentLength rf)) (pln a);
                 a' = a\<lparr> pln := p',
                         reqSummer := reqSummer a @ (case content of None \<Rightarrow> [] | Some b \<Rightarrow> b),
                         reqFragment := Some (rf\<lparr> End := int64 (End rf + int (len_bytes content)) \<rparr>) \<rparr>
             in Returns (sendErr ops p' = None, a'))))"

text \<open>
  The receive loop of \<^verbatim>\<open>serveAppend\<close>. The client stream is the list of results that
  \<^verbatim>\<open>stream.RecvMsg\<close> delivers; when it delivers nothing more the loop waits forever.
\<close>

fun recvLoop ::
  "'p pipeline_ops \<Rightarrow> validators \<Rightarrow> 'p appender \<Rightarrow> (error + AppendRequest) list
     \<Rightarrow> 'p appender go" where
  "recvLoop ops v a [] = Blocks"
| "recvLoop ops v a (r # rs) =
    (case onRecv ops v a r of
       Panics s \<Rightarrow> Panics s
     | Blocks \<Rightarrow> Blocks
     | Returns (continue, a') \<Rightarrow> if continue then recvLoop ops v a' rs else Returns a')"

text \<open>
  The two responses the Append RPC builds. Unnamed fields are zero: a nil Route, a nil
  Commit, and the zero Status, which is OK.
\<close>

definition commitResponse :: "Header option \<Rightarrow> Fragment option \<Rightarrow> AppendResponse" where
  "commitResponse hdr commit =
    \<lparr> AppendResponse.Status = Status_OK, Header = hdr, Route = None, Commit = commit \<rparr>"

definition statusResponse :: "Status \<Rightarrow> Header \<Rightarrow> AppendResponse" where
  "statusResponse st hdr =
    \<lparr> AppendResponse.Status = st, Header = Some hdr, Route = None, Commit = None \<rparr>"

text \<open>
  \<^verbatim>\<open>serveAppend\<close>. The hand-over of the pipeline's send side and the barrier that orders
  concurrent appends are not modelled: one append runs at a time. \<open>sendAndClose\<close> is the
  result of \<^verbatim>\<open>stream.SendAndClose\<close>. The result is the error returned, the response
  handed to \<^verbatim>\<open>SendAndClose\<close> (if it was called), and the pipeline afterwards.
\<close>

definition serveAppend ::
  "'p pipeline_ops \<Rightarrow> validators \<Rightarrow> (AppendResponse \<Rightarrow> error option) \<Rightarrow> 'p
     \<Rightarrow> JournalSpec_Fragment \<Rightarrow> (error + AppendRequest) list
     \<Rightarrow> (error option \<times> AppendResponse option \<times> 'p) go" where
  "serveAppend ops v sendAndClose p sp stream =
    (case recvLoop ops v (beginAppending ops p sp) stream of
       Panics s \<Rightarrow> Panics s
     | Blocks \<Rightarrow> Blocks
     | Returns a \<Rightarrow>
       (let plnSendErr = sendErr ops (pln a);
            p1 = (if plnSendErr = None then pln a else closeSend ops (pln a));
            p2 = gatherOK ops p1;
            p3 = (if plnSendErr \<noteq> None then gatherEOF ops p2 else p2)
        in if reqErr a \<noteq> None then Returns (reqErr a, None, p3)
           else if plnSendErr \<noteq> None then Returns (plnSendErr, None, p3)
           else if recvErr ops p3 \<noteq> None then Returns (recvErr ops p3, None, p3)
           else (let resp = commitResponse (pln_Header ops p3) (reqFragment a)
                 in Returns (sendAndClose resp, Some resp, p3))))"




text \<open>
  \<^verbatim>\<open>Service.Append\<close>. The resolver, \<^verbatim>\<open>acquirePipeline\<close> and \<^verbatim>\<open>proxyAppend\<close> are defined
  outside the sources at hand: what they answer in each round of the dispatch loop is
  given by a script, one entry per round. When the script is exhausted the resolver
  never answers. The result is the error returned and the response handed to
  \<^verbatim>\<open>SendAndClose\<close>, if any.
\<close>

record resolution =
  status :: Status
  Header :: Header
  replica_nil :: bool
  journalSpec :: JournalSpec_Fragment

record 'p round =
  resolved :: "error + resolution"
  proxied :: "error option \<times> AppendResponse option"
  acquired :: "'p \<times> int \<times> error option"

fun dispatchLoop ::
  "'p pipeline_ops \<Rightarrow> validators \<Rightarrow> (AppendResponse \<Rightarrow> error option) \<Rightarrow> 'p round list
     \<Rightarrow> (error + AppendRequest) list \<Rightarrow> (error option \<times> AppendResponse option) go" where
  "dispatchLoop ops v sendAndClose [] stream = Blocks"
| "dispatchLoop ops v sendAndClose (rd # rds) stream =
    (case resolved rd of
       Inl err \<Rightarrow> Returns (Some err, None)
     | Inr res \<Rightarrow>
       if status res \<noteq> Status_OK then
         (let resp = statusResponse (status res) (resolution.Header res)
          in Returns (sendAndClose resp, Some resp))
       else if replica_nil res then Returns (proxied rd)
       else
         (case acquired rd of
            (p, rev', Some err) \<Rightarrow> Returns (Some err, None)
          | (p, rev', None) \<Rightarrow>
            if rev' \<noteq> 0 then dispatchLoop ops v sendAndClose rds stream
            else
              (case serveAppend ops v sendAndClose p (journalSpec res) stream of
                 Panics s \<Rightarrow> Panics s
               | Blocks \<Rightarrow> Blocks
               | Returns (err, resp, p') \<Rightarrow> Returns (err, resp))))"

fun Append ::
  "'p pipeline_ops \<Rightarrow> validators \<Rightarrow> (AppendResponse \<Rightarrow> error option) \<Rightarrow> 'p round list
     \<Rightarrow> (error + AppendRequest) list \<Rightarrow> (error option \<times> AppendResponse option) go" where
  "Append ops v sendAndClose script [] = Blocks"
| "Append ops v sendAndClose script (Inl err # stream) = Returns (Some err, None)"
| "Append ops v sendAndClose script (Inr req # stream) =
    (case AppendRequest_Validate v req of
       Some err \<Rightarrow> Returns (Some err, None)
     | None \<Rightarrow> dispatchLoop ops v sendAndClose script stream)"

text \<open>
  Modelled from the spec: the pipeline and its spool are not in the sources. The spec's
  spool is a committed Fragment with content streamed since the last commit; \<open>Next()\<close>
  is the candidate Fragment with Begin at the current End, extended by that content;
  a proposal whose End is not below the current End is adopted and the streamed content
  is settled (committed by the proposal \<open>Next()\<close>, dropped by a rollback to the current
  Fragment). The digest check of a commit is left out: the primary proposes what its own
  spool computed. \<open>peer_err\<close> is what gathering the peers' responses will report.
\<close>

record spec_pipeline =
  spool :: Fragment
  pending :: bytes
  send_err :: "error option"
  recv_err :: "error option"
  peer_err :: "error option"
  header :: "Header option"

definition spec_Next :: "(bytes \<Rightarrow> bytes) \<Rightarrow> spec_pipeline \<Rightarrow> Fragment" where
  "spec_Next h p =
    (spool p)\<lparr> Begin := End (spool p),
               End := End (spool p) + int (length (pending p)),
               Sum := h (pending p) \<rparr>"

definition spec_scatter :: "ReplicateRequest \<Rightarrow> spec_pipeline \<Rightarrow> spec_pipeline" where
  "spec_scatter req p =
    (case Proposal req of
       Some f \<Rightarrow> if End f \<ge> End (spool p) then p\<lparr> spool := f, pending := [] \<rparr> else p
     | None \<Rightarrow>
       p\<lparr> pending := pending p @ (case ReplicateRequest.Content req of
                                     None \<Rightarrow> [] | Some b \<Rightarrow> b) \<rparr>)"

definition spec_pipeline_ops :: "(bytes \<Rightarrow> bytes) \<Rightarrow> spec_pipeline pipeline_ops" where
  "spec_pipeline_ops h =
    \<lparr> scatter = spec_scatter,
      sendErr = send_err,
      recvErr = recv_err,
      closeSend = (\<lambda>p. p),
      gatherOK = (\<lambda>p. p\<lparr> recv_err := peer_err p \<rparr>),
      gatherEOF = (\<lambda>p. p),
      spool_Fragment = spool,
      spool_Next = spec_Next h,
      pln_Header = header,
      sha1_sum = h \<rparr>"

text \<open>
  Concrete inputs: an empty spool of the journal \<open>peer/journal\<close>, the fragment settings
  of the broker's test journal (target length 1024), content messages, and a client
  whose \<^verbatim>\<open>SendAndClose\<close> succeeds.
\<close>

definition empty_spool :: Fragment where
  "empty_spool =
    \<lparr> Fragment.Journal = ''peer/journal'', Begin = 0, End = 0, Sum = [],
      Fragment.CompressionCodec = 0, BackingStore = [] \<rparr>"

definition idle_pipeline :: spec_pipeline where
  "idle_pipeline =
    \<lparr> spool = empty_spool, pending = [], send_err = None, recv_err = None,
      peer_err = None,
      header = Some \<lparr> BrokerId = \<lparr> Zone = ''zone'', Suffix = ''broker'' \<rparr>,
                      Header.Route = [] \<rparr> \<rparr>"

definition test_spec :: JournalSpec_Fragment where
  "test_spec = \<lparr> Length = 1024, JournalSpec_Fragment.CompressionCodec = 0, Stores = [] \<rparr>"

definition content_msg :: "bytes \<Rightarrow> error + AppendRequest" where
  "content_msg b = Inr \<lparr> AppendRequest.Journal = [], Header = None, Content = Some b \<rparr>"

definition send_ok :: "AppendResponse \<Rightarrow> error option" where
  "send_ok resp = None"

definition journal_msg :: "error + AppendRequest" where
  "journal_msg =
    Inr \<lparr> AppendRequest.Journal = ''peer/journal'', Header = None, Content = None \<rparr>"

definition broker_header :: Header where
  "broker_header = \<lparr> BrokerId = \<lparr> Zone = ''zone'', Suffix = ''broker'' \<rparr>, Header.Route = [] \<rparr>"

text \<open>A round in which the resolver finds the local primary and the pipeline is idle.\<close>

definition local_round :: "spec_pipeline round" where
  "local_round =
    \<lparr> resolved = Inr \<lparr> status = Status_OK, resolution.Header = broker_header,
                       replica_nil = False, journalSpec = test_spec \<rparr>,
      proxied = (None, None),
      acquired = (idle_pipeline, 0, None) \<rparr>"

text \<open>A round in which the resolver answers with a status other than OK.\<close>

definition wrong_route_round :: "spec_pipeline round" where
  "wrong_route_round =
    \<lparr> resolved = Inr \<lparr> status = Status_WRONG_ROUTE, resolution.Header = broker_header,
                       replica_nil = True, journalSpec = test_spec \<rparr>,
      proxied = (None, None),
      acquired = (idle_pipeline, 0, None) \<rparr>"




section \<open>Batched transactions and convergence (v3.allocator)\<close>

text \<open>
  Etcd compares and operations, as far as the allocator builds them:
  \<^verbatim>\<open>Compare(CreateRevision(key), "=", n)\<close>, \<^verbatim>\<open>Compare(ModRevision(key), "=", n)\<close>,
  \<^verbatim>\<open>OpDelete(key)\<close> and \<^verbatim>\<open>OpPut(key, value)\<close>. An underlying transaction
  \<^verbatim>\<open>OpTxn(cmps, ops, nil)\<close> is the pair of its compares and its operations.
\<close>

datatype Cmp = CreateRevision_eq string int | ModRevision_eq string int

datatype Op = OpDelete string | OpPut string string

type_synonym txn = "Cmp list \<times> Op list"

record TxnResponse =
  Succeeded :: bool
  Revision :: int

definition maxTxnOps :: nat where
  "maxTxnOps = 128"

text \<open>
  \<^verbatim>\<open>txnDo\<close> runs a transaction against Etcd. What Etcd answers may depend on everything
  issued before, so \<open>txnDo\<close> takes the list of transactions issued so far; that list is
  the state of the Etcd side and is threaded through every call.
\<close>

record batchedTxn =
  txnDo :: "txn list \<Rightarrow> txn \<Rightarrow> error + TxnResponse"
  cmps :: "Cmp list"
  ops :: "Op list"
  nextCmps :: "Cmp list"
  nextOps :: "Op list"
  fixedCmps :: "Cmp list"

definition newBatchedTxn ::
  "(txn list \<Rightarrow> txn \<Rightarrow> error + TxnResponse) \<Rightarrow> Cmp list \<Rightarrow> batchedTxn" where
  "newBatchedTxn do fixed =
    \<lparr> txnDo = do, cmps = [], ops = [], nextCmps = [], nextOps = [], fixedCmps = fixed \<rparr>"

definition batchedTxn_If :: "batchedTxn \<Rightarrow> Cmp list \<Rightarrow> batchedTxn" where
  "batchedTxn_If b c = b\<lparr> nextCmps := nextCmps b @ c \<rparr>"

definition batchedTxn_Then :: "batchedTxn \<Rightarrow> Op list \<Rightarrow> batchedTxn" where
  "batchedTxn_Then b o' = b\<lparr> nextOps := nextOps b @ o' \<rparr>"

definition batchedTxn_Commit ::
  "batchedTxn \<Rightarrow> txn list \<Rightarrow> ((TxnResponse option \<times> error option) \<times> batchedTxn \<times> txn list) go"
  where
  "batchedTxn_Commit b issued =
    (if length (nextCmps b) \<noteq> 0 \<or> length (nextOps b) \<noteq> 0 then
       Panics ''must call Checkpoint before flush''
     else
       (case txnDo b issued (cmps b, ops b) of
          Inl err \<Rightarrow> Returns ((None, Some err), b, issued @ [(cmps b, ops b)])
        | Inr r \<Rightarrow>
          if \<not> Succeeded r then
            Returns ((Some r, Some (Err ''transaction checks did not succeed'')), b,
                     issued @ [(cmps b, ops b)])
          else
            Returns ((Some r, None), b\<lparr> cmps := [], ops := [] \<rparr>,
                     issued @ [(cmps b, ops b)])))"

definition batchedTxn_Checkpoint ::
  "batchedTxn \<Rightarrow> txn list \<Rightarrow> (error option \<times> batchedTxn \<times> txn list) go" where
  "batchedTxn_Checkpoint b issued =
    (let b1 = (if length (cmps b) = 0 then b\<lparr> cmps := cmps b @ fixedCmps b \<rparr> else b);
         nc = nextCmps b1;
         no = nextOps b1;
         b2 = b1\<lparr> nextCmps := [], nextOps := [] \<rparr>;
         lc = length (cmps b2) + length nc;
         lo = length (ops b2) + length no
     in if lc > maxTxnOps \<or> lo > maxTxnOps then
          (case batchedTxn_Commit b2 issued of
             Panics s \<Rightarrow> Panics s
           | Blocks \<Rightarrow> Blocks
           | Returns ((r, Some err), b3, issued') \<Rightarrow> Returns (Some err, b3, issued')
           | Returns ((r, None), b3, issued') \<Rightarrow>
               (let b4 = b3\<lparr> cmps := cmps b3 @ fixedCmps b3 \<rparr>
                in Returns (None, b4\<lparr> cmps := cmps b4 @ nc, ops := ops b4 @ no \<rparr>, issued')))
        else Returns (None, b2\<lparr> cmps := cmps b2 @ nc, ops := ops b2 @ no \<rparr>, issued))"

text \<open>
  A caller's sequence of calls. The caller may go on after an error, so errors do not
  stop the run; a panic does.
\<close>

datatype call = If_call "Cmp list" | Then_call "Op list" | Checkpoint_call | Commit_call

fun run_calls :: "batchedTxn \<Rightarrow> txn list \<Rightarrow> call list \<Rightarrow> (batchedTxn \<times> txn list) go" where
  "run_calls b issued [] = Returns (b, issued)"
| "run_calls b issued (If_call c # cs) = run_calls (batchedTxn_If b c) issued cs"
| "run_calls b issued (Then_call o' # cs) = run_calls (batchedTxn_Then b o') issued cs"
| "run_calls b issued (Checkpoint_call # cs) =
    (case batchedTxn_Checkpoint b issued of
       Returns (err, b', issued') \<Rightarrow> run_calls b' issued' cs
     | Panics s \<Rightarrow> Panics s
     | Blocks \<Rightarrow> Blocks)"
| "run_calls b issued (Commit_call # cs) =
    (case batchedTxn_Commit b issued of
       Returns (res, b', issued') \<Rightarrow> run_calls b' issued' cs
     | Panics s \<Rightarrow> Panics s
     | Blocks \<Rightarrow> Blocks)"

text \<open>
  The checkpoints a sequence of calls seals: the compares and operations added by
  \<^verbatim>\<open>If\<close> and \<^verbatim>\<open>Then\<close> between one \<^verbatim>\<open>Checkpoint\<close> and the next. A transaction
  holds whole checkpoints when its operations are those of some sealed checkpoints,
  one after the other, and its compares are the fixed compares followed by the
  compares of the same checkpoints, or when it is empty. \<open>batch_of\<close> says the same of
  the batch that waits to be flushed.
\<close>

fun sealed_units :: "Cmp list \<Rightarrow> Op list \<Rightarrow> call list \<Rightarrow> txn list" where
  "sealed_units pc po [] = []"
| "sealed_units pc po (If_call c # cs) = sealed_units (pc @ c) po cs"
| "sealed_units pc po (Then_call o' # cs) = sealed_units pc (po @ o') cs"
| "sealed_units pc po (Checkpoint_call # cs) = (pc, po) # sealed_units [] [] cs"
| "sealed_units pc po (Commit_call # cs) = sealed_units pc po cs"

definition whole_checkpoints :: "txn set \<Rightarrow> Cmp list \<Rightarrow> txn \<Rightarrow> bool" where
  "whole_checkpoints U fixed t =
    (\<exists>us. set us \<subseteq> U \<and>
          (fst t = fixed @ concat (map fst us) \<or> (fst t = [] \<and> us = [])) \<and>
          snd t = concat (map snd us))"

definition batch_of :: "batchedTxn \<Rightarrow> txn list \<Rightarrow> bool" where
  "batch_of b us =
    ((cmps b = fixedCmps b @ concat (map fst us) \<or> (cmps b = [] \<and> us = [])) \<and>
     ops b = concat (map snd us))"

text \<open>An Etcd that accepts every transaction, and the leader fence of a member key.\<close>

definition txnDo_ok :: "txn list \<Rightarrow> txn \<Rightarrow> error + TxnResponse" where
  "txnDo_ok issued t = Inr \<lparr> Succeeded = True, Revision = int (length issued) + 1 \<rparr>"

definition leader_fence :: Cmp where
  "leader_fence = ModRevision_eq ''/root/members/us-west|baz'' 7"

text \<open>
  An Etcd that is unreachable for the first transaction it is sent and answers every
  later one with success.
\<close>

definition txnDo_flaky :: "txn list \<Rightarrow> txn \<Rightarrow> error + TxnResponse" where
  "txnDo_flaky issued t =
    (if issued = [] then Inl (Err ''etcdserver: request timed out'')
     else Inr \<lparr> Succeeded = True, Revision = int (length issued) + 1 \<rparr>)"

text \<open>
  The interface \<^verbatim>\<open>checkpointTxn\<close>, as far as convergence uses it, over a transaction
  state \<open>'t\<close>. \<open>batched_checkpointTxn\<close> is the implementation by \<^verbatim>\<open>batchedTxn\<close>.
\<close>

record 't checkpointTxn =
  txn_If :: "'t \<Rightarrow> Cmp list \<Rightarrow> 't"
  txn_Then :: "'t \<Rightarrow> Op list \<Rightarrow> 't"
  txn_Checkpoint :: "'t \<Rightarrow> (error option \<times> 't) go"

definition batched_checkpointTxn :: "(batchedTxn \<times> txn list) checkpointTxn" where
  "batched_checkpointTxn =
    \<lparr> txn_If = (\<lambda>(b, issued) c. (batchedTxn_If b c, issued)),
      txn_Then = (\<lambda>(b, issued) o'. (batchedTxn_Then b o', issued)),
      txn_Checkpoint = (\<lambda>(b, issued).
        case batchedTxn_Checkpoint b issued of
          Panics s \<Rightarrow> Panics s
        | Blocks \<Rightarrow> Blocks
        | Returns (err, b', issued') \<Rightarrow> Returns (err, (b', issued'))) \<rparr>"



text \<open>
  Key/values of the allocator's keyspace: the raw key and revisions, and the decoded
  Item or Assignment.
\<close>

record Assignment =
  ItemID :: string
  MemberZone :: string
  MemberSuffix :: string
  Slot :: nat

record Item =
  ID :: string

record 'd KeyValue =
  Key :: string
  CreateRevision :: int
  ModRevision :: int
  Decoded :: 'd

text \<open>
  Modelled from the spec: \<^verbatim>\<open>ItemKey\<close> is not in the sources; the spec's key layout puts
  an Item at \<open><root>/items/<id>\<close>.
\<close>

definition ItemKey :: "string \<Rightarrow> string \<Rightarrow> string" where
  "ItemKey root itemID = root @ ''/items/'' @ itemID"

definition modRevisionUnchanged :: "'d KeyValue \<Rightarrow> Cmp" where
  "modRevisionUnchanged kv = ModRevision_eq (Key kv) (ModRevision kv)"

fun removeDeadAssignments ::
  "'t checkpointTxn \<Rightarrow> string \<Rightarrow> Assignment KeyValue list \<Rightarrow> 't \<Rightarrow> (error option \<times> 't) go"
  where
  "removeDeadAssignments tx root [] t = Returns (None, t)"
| "removeDeadAssignments tx root (a # rest) t =
    (let itemID = ItemID (Decoded a);
         limit = Suc (length (takeWhile (\<lambda>x. ItemID (Decoded x) = itemID) rest));
         t1 = txn_If tx t [CreateRevision_eq (ItemKey root itemID) 0];
         t2 = fold (\<lambda>kv t'. txn_Then tx (txn_If tx t' [modRevisionUnchanged kv])
                               [OpDelete (Key kv)])
                (take limit (a # rest)) t1
     in case txn_Checkpoint tx t2 of
          Panics s \<Rightarrow> Panics s
        | Blocks \<Rightarrow> Blocks
        | Returns (Some err, t3) \<Rightarrow> Returns (Some err, t3)
        | Returns (None, t3) \<Rightarrow> removeDeadAssignments tx root (drop limit (a # rest)) t3)"

text \<open>
  \<^verbatim>\<open>converge\<close>. The type \<^verbatim>\<open>leftJoin\<close> and the item pass (\<^verbatim>\<open>itemState.init\<close> followed by
  \<^verbatim>\<open>constrainAndBuildOps\<close>) are defined outside the sources at hand: the cursors that
  \<^verbatim>\<open>it.next()\<close> yields, in order, and the item pass \<open>build\<close> are parameters. A slice
  expression with bounds out of order, or beyond the length, panics (the slices are
  taken to have no spare capacity), and so does an index beyond the Items.
\<close>

record leftJoinCursor =
  left :: nat
  rightBegin :: nat
  rightEnd :: nat

fun convergeLoop ::
  "'t checkpointTxn
     \<Rightarrow> (nat \<Rightarrow> Assignment KeyValue list \<Rightarrow> Assignment list \<Rightarrow> 't \<Rightarrow> (error option \<times> 't) go)
     \<Rightarrow> string \<Rightarrow> Item KeyValue list \<Rightarrow> Assignment KeyValue list \<Rightarrow> Assignment list
     \<Rightarrow> nat \<Rightarrow> leftJoinCursor list \<Rightarrow> 't \<Rightarrow> (error option \<times> 't) go" where
  "convergeLoop tx build root items assignments desired lastCRE [] t =
    (if lastCRE > length assignments then Panics ''slice bounds out of range''
     else removeDeadAssignments tx root (drop lastCRE assignments) t)"
| "convergeLoop tx build root items assignments desired lastCRE (cur # curs) t =
    (if lastCRE > rightBegin cur \<or> rightBegin cur > length assignments then
       Panics ''slice bounds out of range''
     else
       (case removeDeadAssignments tx root
               (take (rightBegin cur - lastCRE) (drop lastCRE assignments)) t of
          Panics s \<Rightarrow> Panics s
        | Blocks \<Rightarrow> Blocks
        | Returns (Some err, t1) \<Rightarrow> Returns (Some err, t1)
        | Returns (None, t1) \<Rightarrow>
          if left cur \<ge> length items then Panics ''index out of range''
          else
            (let itemID = ID (Decoded (items ! left cur));
                 limit = length (takeWhile (\<lambda>d. ItemID d = itemID) desired)
             in if rightBegin cur > rightEnd cur \<or> rightEnd cur > length assignments then
                  Panics ''slice bounds out of range''
                else
                  (case build (left cur)
                          (take (rightEnd cur - rightBegin cur)
                             (drop (rightBegin cur) assignments))
                          (take limit desired) t1 of
                     Panics s \<Rightarrow> Panics s
                   | Blocks \<Rightarrow> Blocks
                   | Returns (Some err, t2) \<Rightarrow> Returns (Some err, t2)
                   | Returns (None, t2) \<Rightarrow>
                       convergeLoop tx build root items assignments (drop limit desired)
                         (rightEnd cur) curs t2))))"

definition converge ::
  "'t checkpointTxn
     \<Rightarrow> (nat \<Rightarrow> Assignment KeyValue list \<Rightarrow> Assignment list \<Rightarrow> 't \<Rightarrow> (error option \<times> 't) go)
     \<Rightarrow> string \<Rightarrow> Item KeyValue list \<Rightarrow> Assignment KeyValue list \<Rightarrow> Assignment list
     \<Rightarrow> leftJoinCursor list \<Rightarrow> 't \<Rightarrow> (error option \<times> 't) go" where
  "converge tx build root items assignments desired cursors t =
    convergeLoop tx build root items assignments desired 0 cursors t"






text \<open>
  The allocator's test keyspace: Items \<open>item-1\<close> and \<open>item-two\<close>, and six Assignments,
  one of them of the missing Item \<open>item-missing\<close>; the cursors of their left join; an
  item pass that issues nothing; an empty recorder whose checkpoints all succeed.
\<close>

definition assignment_kv ::
  "string \<Rightarrow> string \<Rightarrow> string \<Rightarrow> string \<Rightarrow> nat \<Rightarrow> int \<Rightarrow> Assignment KeyValue" where
  "assignment_kv item zone suffix slot_digits slot' revision =
    \<lparr> Key = ''/root/assign/'' @ item @ ''/'' @ zone @ ''/'' @ suffix @ ''/'' @ slot_digits,
      CreateRevision = revision, ModRevision = revision,
      Decoded = \<lparr> ItemID = item, MemberZone = zone, MemberSuffix = suffix, Slot = slot' \<rparr> \<rparr>"

definition fixture_items :: "Item KeyValue list" where
  "fixture_items =
    [\<lparr> Key = ''/root/items/item-1'', CreateRevision = 2, ModRevision = 2,
       Decoded = \<lparr> ID = ''item-1'' \<rparr> \<rparr>,
     \<lparr> Key = ''/root/items/item-two'', CreateRevision = 3, ModRevision = 3,
       Decoded = \<lparr> ID = ''item-two'' \<rparr> \<rparr>]"

definition fixture_assignments :: "Assignment KeyValue list" where
  "fixture_assignments =
    [assignment_kv ''item-1'' ''us-east'' ''foo'' ''1'' 1 4,
     assignment_kv ''item-1'' ''us-west'' ''baz'' ''0'' 0 5,
     assignment_kv ''item-missing'' ''us-west'' ''baz'' ''0'' 0 6,
     assignment_kv ''item-two'' ''missing'' ''member'' ''2'' 2 7,
     assignment_kv ''item-two'' ''us-east'' ''bar'' ''0'' 0 8,
     assignment_kv ''item-two'' ''us-west'' ''baz'' ''1'' 1 9]"

definition fixture_cursors :: "leftJoinCursor list" where
  "fixture_cursors =
    [\<lparr> left = 0, rightBegin = 0, rightEnd = 2 \<rparr>,
     \<lparr> left = 1, rightBegin = 3, rightEnd = 6 \<rparr>]"

definition no_build ::
  "nat \<Rightarrow> Assignment KeyValue list \<Rightarrow> Assignment list \<Rightarrow> 't \<Rightarrow> (error option \<times> 't) go"
  where
  "no_build l current desired t = Returns (None, t)"


section \<open>The keyspace header (keyspace)\<close>

text \<open>
  Only the tests of the keyspace are in the sources at hand
  (\<^verbatim>\<open>TestHeaderPatching\<close>, \<^verbatim>\<open>TestWatchResponseApply\<close>); \<^verbatim>\<open>patchHeader\<close> and
  \<^verbatim>\<open>KeySpace.apply\<close> themselves are not.
\<close>

record ResponseHeader =
  ClusterId :: nat
  MemberId :: nat
  Revision :: int
  RaftTerm :: nat

record 'ev WatchResponse =
  Header :: ResponseHeader
  Events :: "'ev list"

record 'kv KeySpace =
  Header :: ResponseHeader
  KeyValues :: 'kv

text \<open>
  Modelled from the spec: \<^verbatim>\<open>patchHeader(h, update, expectSameRevision)\<close> is not in the
  sources. The spec has the ClusterID match and the Revision either equal (strict) or
  increase; the messages and the cases are those the test \<^verbatim>\<open>TestHeaderPatching\<close>
  expects: a header that has not been set yet (zero ClusterID, zero Revision) is
  patched without the respective check, and without strictness the Revision must be
  greater. The result is the patched header, or the error with the header left as is.
\<close>

definition patchHeader ::
  "ResponseHeader \<Rightarrow> ResponseHeader \<Rightarrow> bool \<Rightarrow> error + ResponseHeader" where
  "patchHeader h update expectSameRevision =
    (if ClusterId h \<noteq> 0 \<and> ClusterId h \<noteq> ClusterId update then
       Inl (Err ''etcd ClusterID mismatch (expected %d, got %d)'')
     else if expectSameRevision \<and> ResponseHeader.Revision h \<noteq> 0 \<and>
             ResponseHeader.Revision update \<noteq> ResponseHeader.Revision h then
       Inl (Err ''etcd Revision mismatch (expected = %d, got %d)'')
     else if \<not> expectSameRevision \<and>
             ResponseHeader.Revision update \<le> ResponseHeader.Revision h then
       Inl (Err ''etcd Revision mismatch (expected > %d, got %d)'')
     else Inr update)"









text \<open>
  Concrete messages used to exercise the validators: a metadata read response whose
  fragment begins at offset 0, and a first replicate request like the one the broker's
  replication test sends.
\<close>

definition fragment_0_13 :: Fragment where
  "fragment_0_13 =
    \<lparr> Fragment.Journal = ''peer/journal'', Begin = 0, End = 13, Sum = [],
      Fragment.CompressionCodec = 0, BackingStore = [] \<rparr>"

definition read_response_at_0 :: ReadResponse where
  "read_response_at_0 =
    \<lparr> ReadResponse.Status = Status_OK, Header = None, Route = None,
      Fragment = Some fragment_0_13, FragmentUrl = [], WriteHead = 13, Offset = 0,
      Content = None \<rparr>"

definition first_replicate_request :: ReplicateRequest where
  "first_replicate_request =
    \<lparr> ReplicateRequest.Journal = ''peer/journal'', Route = Some [],
      Proposal = Some fragment_0_13, Content = None, ContentDelta = 0,
      Acknowledge = True \<rparr>"

section \<open>Properties of the validators\<close>

text \<open>
  C9. \<^verbatim>\<open>ReplicateRequest.Validate\<close> accepts a first message (non-empty Journal) only
  when it carries a valid Route, a valid Proposal of the same Journal, Acknowledge set,
  no Content and a zero ContentDelta; it accepts a later message only when it is a
  Proposal without Content and ContentDelta, or Content with a ContentDelta of at least 0
  and Acknowledge unset. Every other message is rejected.
\<close>

theorem ReplicateRequest_Validate_accepts_only:
  assumes "ReplicateRequest_Validate v m = None"
  shows "(ReplicateRequest.Journal m \<noteq> [] \<and>
            (\<exists>r p. ReplicateRequest.Route m = Some r \<and> Route_Validate v r = None \<and>
                   Proposal m = Some p \<and> Fragment_Validate v p = None \<and>
                   Fragment.Journal p = ReplicateRequest.Journal m \<and>
                   Acknowledge m \<and> ReplicateRequest.Content m = None \<and>
                   ContentDelta m = 0))
       \<or> (ReplicateRequest.Journal m = [] \<and>
            ((\<exists>p. Proposal m = Some p \<and> ReplicateRequest.Content m = None \<and>
                  ContentDelta m = 0)
           \<or> (Proposal m = None \<and> ReplicateRequest.Content m \<noteq> None \<and>
               0 \<le> ContentDelta m \<and> \<not> Acknowledge m)))"
  using assms
  by (auto simp: ReplicateRequest_Validate_def split: if_splits option.splits)

theorem ReplicateRequest_Validate_accepts_only_witness:
  "ReplicateRequest_Validate spec_validators first_replicate_request = None \<and>
   ReplicateRequest.Journal first_replicate_request \<noteq> [] \<and>
   Proposal first_replicate_request = Some fragment_0_13 \<and>
   Acknowledge first_replicate_request"
proof -
  have ok: "ReplicateRequest_Validate spec_validators first_replicate_request = None"
    by (simp add: ReplicateRequest_Validate_def spec_validators_def
        first_replicate_request_def fragment_0_13_def)
  from ReplicateRequest_Validate_accepts_only [OF ok] ok show ?thesis
    by (simp add: first_replicate_request_def)
qed

text \<open>
  C8, as amended. \<^verbatim>\<open>ReadResponse.Validate\<close> accepts a metadata response with a Fragment
  only when \<open>Begin \<le> Offset < End\<close> and \<open>WriteHead \<ge> End\<close>; it accepts a metadata response
  without a Fragment only when Offset is 0; it accepts a response with Content only
  when Status is OK and Offset, WriteHead, Route, Fragment and FragmentUrl are unset.
\<close>

theorem ReadResponse_Validate_accepts_only:
  assumes "ReadResponse_Validate v m = None"
  shows "(ReadResponse.Content m = None \<longrightarrow>
            (case Fragment m of
               Some f \<Rightarrow> Begin f \<le> Offset m \<and> Offset m < End f \<and> End f \<le> WriteHead m
             | None \<Rightarrow> Offset m = 0))
       \<and> (ReadResponse.Content m \<noteq> None \<longrightarrow>
            ReadResponse.Status m = Status_OK \<and> Offset m = 0 \<and> WriteHead m = 0 \<and>
            ReadResponse.Route m = None \<and> Fragment m = None \<and> FragmentUrl m = [])"
  using assms
  by (auto simp: ReadResponse_Validate_def split: if_splits option.splits)

theorem ReadResponse_Validate_accepts_only_witness:
  "ReadResponse_Validate spec_validators read_response_at_0 = None \<and>
   ReadResponse.Content read_response_at_0 = None \<and>
   Offset read_response_at_0 < 13 \<and> 13 \<le> WriteHead read_response_at_0"
proof -
  have ok: "ReadResponse_Validate spec_validators read_response_at_0 = None"
    by (simp add: ReadResponse_Validate_def spec_validators_def read_response_at_0_def
        fragment_0_13_def)
  from ReadResponse_Validate_accepts_only [OF ok] ok show ?thesis
    by (simp add: read_response_at_0_def fragment_0_13_def)
qed

text \<open>
  The claim as written also says that Offset is 0 only if no Fragment is present. A
  response whose Fragment begins at 0 is accepted with Offset 0.
\<close>

theorem ReadResponse_Offset_zero_with_Fragment:
  "ReadResponse_Validate spec_validators read_response_at_0 = None \<and>
   ReadResponse.Content read_response_at_0 = None \<and>
   Offset read_response_at_0 = 0 \<and>
   Fragment read_response_at_0 \<noteq> None"
  by (simp add: ReadResponse_Validate_def spec_validators_def read_response_at_0_def
      fragment_0_13_def)

section \<open>Properties of the appender\<close>










lemmas run_defs =
  serveAppend_def beginAppending_def updateProposal_def ContentLength_def int64_def
  onRecv_def AppendRequest_Validate_def AppendResponse_Validate_def spec_validators_def
  spec_pipeline_ops_def spec_scatter_def spec_Next_def proposalRequest_def
  contentRequest_def commitResponse_def statusResponse_def idle_pipeline_def
  empty_spool_def test_spec_def content_msg_def journal_msg_def send_ok_def
  broker_header_def local_round_def wrong_route_round_def len_bytes_def
  NewValidationError_def Let_def

text \<open>
  C4. \<^verbatim>\<open>serveAppend\<close> returns the client-side error \<open>reqErr\<close> if there is one, otherwise
  the pipeline's send error, otherwise the pipeline's receive error; it hands the
  response to the client exactly when all three are nil.
\<close>

theorem serveAppend_error_precedence:
  assumes "recvLoop pl v (beginAppending pl p sp) stream = Returns a"
  shows "\<exists>err resp p'.
           serveAppend pl v sendAndClose p sp stream = Returns (err, resp, p') \<and>
           (reqErr a \<noteq> None \<longrightarrow> err = reqErr a) \<and>
           (reqErr a = None \<and> sendErr pl (pln a) \<noteq> None \<longrightarrow> err = sendErr pl (pln a)) \<and>
           (reqErr a = None \<and> sendErr pl (pln a) = None \<and> recvErr pl p' \<noteq> None \<longrightarrow>
              err = recvErr pl p') \<and>
           ((resp \<noteq> None) =
              (reqErr a = None \<and> sendErr pl (pln a) = None \<and> recvErr pl p' = None))"
  using assms by (auto simp: serveAppend_def Let_def)

theorem serveAppend_error_precedence_witness:
  "\<exists>a. recvLoop (spec_pipeline_ops id) spec_validators
         (beginAppending (spec_pipeline_ops id)
            (idle_pipeline\<lparr> peer_err := Some (Err ''peer'') \<rparr>) test_spec)
         [content_msg ''foobar'', Inl EOF] = Returns a \<and>
       reqErr a = None \<and> sendErr (spec_pipeline_ops id) (pln a) = None \<and>
       (\<exists>p'. serveAppend (spec_pipeline_ops id) spec_validators send_ok
               (idle_pipeline\<lparr> peer_err := Some (Err ''peer'') \<rparr>) test_spec
               [content_msg ''foobar'', Inl EOF] = Returns (Some (Err ''peer''), None, p') \<and>
             recvErr (spec_pipeline_ops id) p' = Some (Err ''peer''))"
proof -
  let ?ops = "spec_pipeline_ops id"
  let ?p = "idle_pipeline\<lparr> peer_err := Some (Err ''peer'') \<rparr>"
  let ?stream = "[content_msg ''foobar'', Inl EOF]"
  obtain a where a: "recvLoop ?ops spec_validators (beginAppending ?ops ?p test_spec) ?stream
      = Returns a" and a': "reqErr a = None" "sendErr ?ops (pln a) = None"
    by (simp add: run_defs)
  from serveAppend_error_precedence [OF a, where sendAndClose = send_ok] obtain err resp p'
    where run: "serveAppend ?ops spec_validators send_ok ?p test_spec ?stream
            = Returns (err, resp, p')"
      and recv: "reqErr a = None \<and> sendErr ?ops (pln a) = None \<and> recvErr ?ops p' \<noteq> None
            \<longrightarrow> err = recvErr ?ops p'"
      and resp: "(resp \<noteq> None) =
            (reqErr a = None \<and> sendErr ?ops (pln a) = None \<and> recvErr ?ops p' = None)"
    by blast
  have p': "recvErr ?ops p' = Some (Err ''peer'')"
    using run by (simp add: run_defs) (auto simp: spec_pipeline_ops_def)
  from recv resp a' p' have "err = Some (Err ''peer'')" "resp = None" by auto
  with a a' run p' show ?thesis by blast
qed




text \<open>
  C2. The response of a committed Append is built without a Route, and the response for
  a status other than OK without a Route and without a Commit;
  \<^verbatim>\<open>AppendResponse.Validate\<close> rejects both with "expected Route".
\<close>

theorem Append_responses_without_Route:
  "(case Append (spec_pipeline_ops id) spec_validators send_ok [local_round]
           [journal_msg, content_msg ''foobar'', content_msg ''bazbing'', Inl EOF] of
      Returns (err, Some resp) \<Rightarrow>
        err = None \<and> AppendResponse.Route resp = None \<and>
        map_option End (Commit resp) = Some 13 \<and>
        AppendResponse_Validate spec_validators resp =
          Some (NewValidationError ''expected Route'')
    | _ \<Rightarrow> False) \<and>
   (case Append (spec_pipeline_ops id) spec_validators send_ok [wrong_route_round]
           [journal_msg, content_msg ''foobar'', Inl EOF] of
      Returns (err, Some resp) \<Rightarrow>
        AppendResponse.Status resp = Status_WRONG_ROUTE \<and>
        AppendResponse.Route resp = None \<and> Commit resp = None \<and>
        AppendResponse_Validate spec_validators resp =
          Some (NewValidationError ''expected Route'')
    | _ \<Rightarrow> False)"
  by (simp add: run_defs)

















section \<open>Properties of batched transactions\<close>

lemma run_calls_append:
  "run_calls b issued cs = Returns (b1, i1) \<Longrightarrow>
   run_calls b issued (cs @ ds) = run_calls b1 i1 ds"
proof (induction cs arbitrary: b issued)
  case Nil
  then show ?case by simp
next
  case (Cons c cs)
  then show ?case
    by (cases c) (auto split: go.splits)
qed

lemma Commit_panics:
  "nextCmps b \<noteq> [] \<or> nextOps b \<noteq> [] \<Longrightarrow>
   batchedTxn_Commit b issued = Panics ''must call Checkpoint before flush''"
  by (auto simp: batchedTxn_Commit_def)

lemma Commit_sealed:
  assumes "nextCmps b = []" "nextOps b = []"
  shows "\<exists>res b'. batchedTxn_Commit b issued = Returns (res, b', issued @ [(cmps b, ops b)]) \<and>
           ((snd res = None \<and> b' = b\<lparr> cmps := [], ops := [] \<rparr>) \<or> (snd res \<noteq> None \<and> b' = b))"
  using assms by (auto simp: batchedTxn_Commit_def split: sum.splits)

lemma Checkpoint_returns:
  "\<exists>err b' issued'. batchedTxn_Checkpoint b issued = Returns (err, b', issued') \<and>
      nextCmps b' = [] \<and> nextOps b' = []"
  by (auto simp: batchedTxn_Checkpoint_def batchedTxn_Commit_def Let_def split: sum.splits)

lemma Commit_asks_Etcd:
  assumes "nextCmps b = []" "nextOps b = []"
  shows "\<exists>res b'. batchedTxn_Commit b issued = Returns (res, b', issued @ [(cmps b, ops b)]) \<and>
           (case txnDo b issued (cmps b, ops b) of
              Inl e \<Rightarrow> res = (None, Some e) \<and> b' = b
            | Inr r \<Rightarrow>
                fst res = Some r \<and>
                (if Succeeded r then snd res = None \<and> b' = b\<lparr> cmps := [], ops := [] \<rparr>
                 else snd res \<noteq> None \<and> b' = b))"
  using assms by (auto simp: batchedTxn_Commit_def split: sum.splits)

lemma Checkpoint_unfold:
  "batchedTxn_Checkpoint b issued =
    (let c1 = (if cmps b = [] then fixedCmps b else cmps b);
         b2 = b\<lparr> cmps := c1, nextCmps := [], nextOps := [] \<rparr>
     in if length c1 + length (nextCmps b) > maxTxnOps \<or>
           length (ops b) + length (nextOps b) > maxTxnOps then
          (case batchedTxn_Commit b2 issued of
             Panics s \<Rightarrow> Panics s
           | Blocks \<Rightarrow> Blocks
           | Returns ((r, Some err), b3, issued') \<Rightarrow> Returns (Some err, b3, issued')
           | Returns ((r, None), b3, issued') \<Rightarrow>
               Returns (None, b3\<lparr> cmps := (cmps b3 @ fixedCmps b3) @ nextCmps b,
                                  ops := ops b3 @ nextOps b \<rparr>, issued'))
        else Returns (None, b2\<lparr> cmps := c1 @ nextCmps b, ops := ops b @ nextOps b \<rparr>, issued))"
  by (cases "cmps b = []")
    (simp_all add: batchedTxn_Checkpoint_def Let_def split: go.splits prod.splits option.splits)

lemma Checkpoint_seals:
  "\<exists>err b' issued'.
     batchedTxn_Checkpoint b issued = Returns (err, b', issued') \<and>
     nextCmps b' = [] \<and> nextOps b' = [] \<and>
     txnDo b' = txnDo b \<and> fixedCmps b' = fixedCmps b \<and>
     (let c1 = (if cmps b = [] then fixedCmps b else cmps b) in
      if length c1 + length (nextCmps b) > maxTxnOps \<or>
         length (ops b) + length (nextOps b) > maxTxnOps
      then issued' = issued @ [(c1, ops b)] \<and>
           (case txnDo b issued (c1, ops b) of
              Inl e \<Rightarrow> err = Some e \<and> cmps b' = c1 \<and> ops b' = ops b
            | Inr r \<Rightarrow>
                if Succeeded r
                then err = None \<and> cmps b' = fixedCmps b @ nextCmps b \<and> ops b' = nextOps b
                else err \<noteq> None \<and> cmps b' = c1 \<and> ops b' = ops b)
      else err = None \<and> issued' = issued \<and>
           cmps b' = c1 @ nextCmps b \<and> ops b' = ops b @ nextOps b)"
  by (auto simp: Checkpoint_unfold batchedTxn_Commit_def Let_def split: sum.splits)

text \<open>
  C10, as amended. \<^verbatim>\<open>If\<close> and \<^verbatim>\<open>Then\<close> add their arguments to the pending checkpoint,
  and \<^verbatim>\<open>Commit\<close> panics while anything is pending. \<^verbatim>\<open>Checkpoint\<close> never panics and
  leaves nothing pending: when the cap is not exceeded it appends the pending compares
  and operations to the batch (the fixed compares first, if the batch was empty); when
  the cap would be exceeded it first issues the batch, and on Etcd's success starts a
  new batch with the fixed compares and the pending checkpoint, while on an error, or
  when Etcd reports that the transaction did not succeed, it returns an error, keeps
  the batch and drops the pending checkpoint. A \<^verbatim>\<open>Commit\<close> with nothing pending issues
  exactly one transaction, the whole batch, and returns what Etcd answers: success with
  the batch cleared when the transaction succeeded, an error with the batch kept
  otherwise. At the end of any sequence of calls, \<^verbatim>\<open>Commit\<close> after a non-empty \<^verbatim>\<open>If\<close>
  or \<^verbatim>\<open>Then\<close> panics, and \<^verbatim>\<open>Commit\<close> after \<^verbatim>\<open>Checkpoint\<close> returns.
\<close>

theorem Commit_requires_Checkpoint:
  "(nextCmps (batchedTxn_If b c) = nextCmps b @ c \<and>
    nextOps (batchedTxn_Then b o') = nextOps b @ o') \<and>
   (nextCmps b \<noteq> [] \<or> nextOps b \<noteq> [] \<longrightarrow>
      batchedTxn_Commit b issued = Panics ''must call Checkpoint before flush'') \<and>
   (\<exists>err b' issued'.
      batchedTxn_Checkpoint b issued = Returns (err, b', issued') \<and>
      nextCmps b' = [] \<and> nextOps b' = [] \<and>
      txnDo b' = txnDo b \<and> fixedCmps b' = fixedCmps b \<and>
      (let c1 = (if cmps b = [] then fixedCmps b else cmps b) in
       if length c1 + length (nextCmps b) > maxTxnOps \<or>
          length (ops b) + length (nextOps b) > maxTxnOps
       then issued' = issued @ [(c1, ops b)] \<and>
            (case txnDo b issued (c1, ops b) of
               Inl e \<Rightarrow> err = Some e \<and> cmps b' = c1 \<and> ops b' = ops b
             | Inr r \<Rightarrow>
                 if Succeeded r
                 then err = None \<and> cmps b' = fixedCmps b @ nextCmps b \<and> ops b' = nextOps b
                 else err \<noteq> None \<and> cmps b' = c1 \<and> ops b' = ops b)
       else err = None \<and> issued' = issued \<and>
            cmps b' = c1 @ nextCmps b \<and> ops b' = ops b @ nextOps b) \<and>
      (\<exists>res b''.
         batchedTxn_Commit b' issued' = Returns (res, b'', issued' @ [(cmps b', ops b')]) \<and>
         (case txnDo b issued' (cmps b', ops b') of
            Inl e \<Rightarrow> res = (None, Some e) \<and> b'' = b'
          | Inr r \<Rightarrow>
              fst res = Some r \<and>
              (if Succeeded r then snd res = None \<and> b'' = b'\<lparr> cmps := [], ops := [] \<rparr>
               else snd res \<noteq> None \<and> b'' = b')))) \<and>
   (run_calls b0 i0 cs = Returns (b, issued) \<longrightarrow>
      (c \<noteq> [] \<longrightarrow> run_calls b0 i0 (cs @ [If_call c, Commit_call]) =
                        Panics ''must call Checkpoint before flush'') \<and>
      (o' \<noteq> [] \<longrightarrow> run_calls b0 i0 (cs @ [Then_call o', Commit_call]) =
                        Panics ''must call Checkpoint before flush'') \<and>
      (\<exists>b2 i2. run_calls b0 i0 (cs @ [Checkpoint_call, Commit_call]) = Returns (b2, i2)))"
proof (intro conjI impI)
  show "nextCmps (batchedTxn_If b c) = nextCmps b @ c"
    by (simp add: batchedTxn_If_def)
  show "nextOps (batchedTxn_Then b o') = nextOps b @ o'"
    by (simp add: batchedTxn_Then_def)
next
  assume "nextCmps b \<noteq> [] \<or> nextOps b \<noteq> []"
  then show "batchedTxn_Commit b issued = Panics ''must call Checkpoint before flush''"
    by (rule Commit_panics)
next
  from Checkpoint_seals [of b issued] obtain err b' issued' where
    cp: "batchedTxn_Checkpoint b issued = Returns (err, b', issued')" and
    sealed: "nextCmps b' = []" "nextOps b' = []" and
    same: "txnDo b' = txnDo b" "fixedCmps b' = fixedCmps b" and
    batch: "let c1 = (if cmps b = [] then fixedCmps b else cmps b) in
       if length c1 + length (nextCmps b) > maxTxnOps \<or>
          length (ops b) + length (nextOps b) > maxTxnOps
       then issued' = issued @ [(c1, ops b)] \<and>
            (case txnDo b issued (c1, ops b) of
               Inl e \<Rightarrow> err = Some e \<and> cmps b' = c1 \<and> ops b' = ops b
             | Inr r \<Rightarrow>
                 if Succeeded r
                 then err = None \<and> cmps b' = fixedCmps b @ nextCmps b \<and> ops b' = nextOps b
                 else err \<noteq> None \<and> cmps b' = c1 \<and> ops b' = ops b)
       else err = None \<and> issued' = issued \<and>
            cmps b' = c1 @ nextCmps b \<and> ops b' = ops b @ nextOps b"
    by blast
  from Commit_asks_Etcd [OF sealed, of issued'] same(1) obtain res b'' where
    cm: "batchedTxn_Commit b' issued' = Returns (res, b'', issued' @ [(cmps b', ops b')])"
      "case txnDo b issued' (cmps b', ops b') of
            Inl e \<Rightarrow> res = (None, Some e) \<and> b'' = b'
          | Inr r \<Rightarrow>
              fst res = Some r \<and>
              (if Succeeded r then snd res = None \<and> b'' = b'\<lparr> cmps := [], ops := [] \<rparr>
               else snd res \<noteq> None \<and> b'' = b')"
    by auto
  show "\<exists>err b' issued'.
      batchedTxn_Checkpoint b issued = Returns (err, b', issued') \<and>
      nextCmps b' = [] \<and> nextOps b' = [] \<and>
      txnDo b' = txnDo b \<and> fixedCmps b' = fixedCmps b \<and>
      (let c1 = (if cmps b = [] then fixedCmps b else cmps b) in
       if length c1 + length (nextCmps b) > maxTxnOps \<or>
          length (ops b) + length (nextOps b) > maxTxnOps
       then issued' = issued @ [(c1, ops b)] \<and>
            (case txnDo b issued (c1, ops b) of
               Inl e \<Rightarrow> err = Some e \<and> cmps b' = c1 \<and> ops b' = ops b
             | Inr r \<Rightarrow>
                 if Succeeded r
                 then err = None \<and> cmps b' = fixedCmps b @ nextCmps b \<and> ops b' = nextOps b
                 else err \<noteq> None \<and> cmps b' = c1 \<and> ops b' = ops b)
       else err = None \<and> issued' = issued \<and>
            cmps b' = c1 @ nextCmps b \<and> ops b' = ops b @ nextOps b) \<and>
      (\<exists>res b''.
         batchedTxn_Commit b' issued' = Returns (res, b'', issued' @ [(cmps b', ops b')]) \<and>
         (case txnDo b issued' (cmps b', ops b') of
            Inl e \<Rightarrow> res = (None, Some e) \<and> b'' = b'
          | Inr r \<Rightarrow>
              fst res = Some r \<and>
              (if Succeeded r then snd res = None \<and> b'' = b'\<lparr> cmps := [], ops := [] \<rparr>
               else snd res \<noteq> None \<and> b'' = b')))"
    using cp sealed same batch cm by blast
next
  assume run: "run_calls b0 i0 cs = Returns (b, issued)" and "c \<noteq> []"
  then show "run_calls b0 i0 (cs @ [If_call c, Commit_call]) =
      Panics ''must call Checkpoint before flush''"
    by (simp add: run_calls_append [OF run] Commit_panics batchedTxn_If_def)
next
  assume run: "run_calls b0 i0 cs = Returns (b, issued)" and "o' \<noteq> []"
  then show "run_calls b0 i0 (cs @ [Then_call o', Commit_call]) =
      Panics ''must call Checkpoint before flush''"
    by (simp add: run_calls_append [OF run] Commit_panics batchedTxn_Then_def)
next
  assume run: "run_calls b0 i0 cs = Returns (b, issued)"
  from Checkpoint_returns [of b issued] obtain err b' issued' where
    cp: "batchedTxn_Checkpoint b issued = Returns (err, b', issued')" and
    sealed: "nextCmps b' = []" "nextOps b' = []"
    by blast
  from Commit_sealed [OF sealed, of issued'] obtain res b'' where
    "batchedTxn_Commit b' issued' = Returns (res, b'', issued' @ [(cmps b', ops b')])"
    by blast
  with cp show "\<exists>b2 i2. run_calls b0 i0 (cs @ [Checkpoint_call, Commit_call]) = Returns (b2, i2)"
    by (simp add: run_calls_append [OF run])
qed

lemmas txn_defs =
  newBatchedTxn_def batchedTxn_If_def batchedTxn_Then_def batchedTxn_Commit_def
  batchedTxn_Checkpoint_def maxTxnOps_def txnDo_ok_def leader_fence_def Let_def

theorem Commit_requires_Checkpoint_witness:
  "nextCmps (batchedTxn_If (newBatchedTxn txnDo_ok [leader_fence])
      [CreateRevision_eq ''/root/items/item-missing'' 0]) =
     [CreateRevision_eq ''/root/items/item-missing'' 0] \<and>
   batchedTxn_Commit
     (batchedTxn_Then (batchedTxn_If (newBatchedTxn txnDo_ok [leader_fence])
        [CreateRevision_eq ''/root/items/item-missing'' 0])
        [OpDelete ''/root/assign/item-missing/us-west/baz/0'']) [] =
     Panics ''must call Checkpoint before flush'' \<and>
   (\<exists>b' res b''.
      batchedTxn_Checkpoint
        (batchedTxn_Then (batchedTxn_If (newBatchedTxn txnDo_ok [leader_fence])
           [CreateRevision_eq ''/root/items/item-missing'' 0])
           [OpDelete ''/root/assign/item-missing/us-west/baz/0'']) [] =
        Returns (None, b', []) \<and>
      cmps b' = [leader_fence, CreateRevision_eq ''/root/items/item-missing'' 0] \<and>
      ops b' = [OpDelete ''/root/assign/item-missing/us-west/baz/0''] \<and>
      batchedTxn_Commit b' [] =
        Returns (res, b'',
          [([leader_fence, CreateRevision_eq ''/root/items/item-missing'' 0],
            [OpDelete ''/root/assign/item-missing/us-west/baz/0''])]) \<and>
      res = (Some \<lparr> Succeeded = True, Revision = 1 \<rparr>, None) \<and>
      cmps b'' = [] \<and> ops b'' = []) \<and>
   run_calls (newBatchedTxn txnDo_ok [leader_fence]) []
     ([If_call [CreateRevision_eq ''/root/items/item-missing'' 0]] @
      [Then_call [OpDelete ''/root/assign/item-missing/us-west/baz/0''], Commit_call]) =
     Panics ''must call Checkpoint before flush'' \<and>
   (\<exists>b2 i2. run_calls (newBatchedTxn txnDo_ok [leader_fence]) []
     ([If_call [CreateRevision_eq ''/root/items/item-missing'' 0]] @
      [Checkpoint_call, Commit_call]) = Returns (b2, i2))"
proof -
  let ?b0 = "newBatchedTxn txnDo_ok [leader_fence]"
  let ?c = "[CreateRevision_eq ''/root/items/item-missing'' 0]"
  let ?o = "[OpDelete ''/root/assign/item-missing/us-west/baz/0'']"
  let ?cs = "[If_call ?c]"
  let ?b1 = "batchedTxn_Then (batchedTxn_If ?b0 ?c) ?o"
  have run: "run_calls ?b0 [] ?cs = Returns (batchedTxn_If ?b0 ?c, [])"
    by simp
  have o': "?o \<noteq> []" by simp
  note at_If = Commit_requires_Checkpoint
    [where b = ?b0 and c = ?c and o' = ?o and issued = "[]" and ?b0.0 = ?b0 and ?i0.0 = "[]"
       and cs = "[]"]
  note at_run = Commit_requires_Checkpoint
    [where b = "batchedTxn_If ?b0 ?c" and c = "[]" and o' = ?o and issued = "[]"
       and ?b0.0 = ?b0 and ?i0.0 = "[]" and cs = ?cs]
  note at_Then = Commit_requires_Checkpoint
    [where b = ?b1 and c = "[]" and o' = "[]" and issued = "[]" and ?b0.0 = ?b0
       and ?i0.0 = "[]" and cs = "[]"]
  have pending: "nextCmps ?b1 \<noteq> [] \<or> nextOps ?b1 \<noteq> []"
    by (simp add: batchedTxn_Then_def batchedTxn_If_def newBatchedTxn_def)
  have small: "\<not> (length (if cmps ?b1 = [] then fixedCmps ?b1 else cmps ?b1) +
        length (nextCmps ?b1) > maxTxnOps \<or>
      length (ops ?b1) + length (nextOps ?b1) > maxTxnOps)"
    by (simp add: batchedTxn_Then_def batchedTxn_If_def newBatchedTxn_def maxTxnOps_def)
  have fields: "cmps ?b1 = []" "fixedCmps ?b1 = [leader_fence]" "nextCmps ?b1 = ?c"
    "ops ?b1 = []" "nextOps ?b1 = ?o" "txnDo ?b1 = txnDo_ok"
    by (simp_all add: batchedTxn_Then_def batchedTxn_If_def newBatchedTxn_def)
  have c1: "nextCmps (batchedTxn_If ?b0 ?c) = ?c"
    using at_If by (simp add: newBatchedTxn_def)
  have c2: "batchedTxn_Commit ?b1 [] = Panics ''must call Checkpoint before flush''"
    using at_Then pending by blast
  from at_Then obtain err b' issued' res b'' where
    cp: "batchedTxn_Checkpoint ?b1 [] = Returns (err, b', issued')" and
    batch: "let c1 = (if cmps ?b1 = [] then fixedCmps ?b1 else cmps ?b1) in
       if length c1 + length (nextCmps ?b1) > maxTxnOps \<or>
          length (ops ?b1) + length (nextOps ?b1) > maxTxnOps
       then issued' = [] @ [(c1, ops ?b1)] \<and>
            (case txnDo ?b1 [] (c1, ops ?b1) of
               Inl e \<Rightarrow> err = Some e \<and> cmps b' = c1 \<and> ops b' = ops ?b1
             | Inr r \<Rightarrow>
                 if Succeeded r
                 then err = None \<and> cmps b' = fixedCmps ?b1 @ nextCmps ?b1 \<and> ops b' = nextOps ?b1
                 else err \<noteq> None \<and> cmps b' = c1 \<and> ops b' = ops ?b1)
       else err = None \<and> issued' = [] \<and>
            cmps b' = c1 @ nextCmps ?b1 \<and> ops b' = ops ?b1 @ nextOps ?b1" and
    cm: "batchedTxn_Commit b' issued' = Returns (res, b'', issued' @ [(cmps b', ops b')])" and
    answer: "case txnDo ?b1 issued' (cmps b', ops b') of
            Inl e \<Rightarrow> res = (None, Some e) \<and> b'' = b'
          | Inr r \<Rightarrow>
              fst res = Some r \<and>
              (if Succeeded r then snd res = None \<and> b'' = b'\<lparr> cmps := [], ops := [] \<rparr>
               else snd res \<noteq> None \<and> b'' = b')"
    by blast
  from batch small fields have sealed: "err = None" "issued' = []"
    "cmps b' = [leader_fence, CreateRevision_eq ''/root/items/item-missing'' 0]"
    "ops b' = ?o"
    by (simp_all add: Let_def maxTxnOps_def)
  from answer fields sealed have res: "res = (Some \<lparr> Succeeded = True, Revision = 1 \<rparr>, None)"
    "cmps b'' = []" "ops b'' = []"
    by (simp_all add: txnDo_ok_def prod_eq_iff)
  have c3: "\<exists>b' res b''.
      batchedTxn_Checkpoint ?b1 [] = Returns (None, b', []) \<and>
      cmps b' = [leader_fence, CreateRevision_eq ''/root/items/item-missing'' 0] \<and>
      ops b' = ?o \<and>
      batchedTxn_Commit b' [] =
        Returns (res, b'',
          [([leader_fence, CreateRevision_eq ''/root/items/item-missing'' 0], ?o)]) \<and>
      res = (Some \<lparr> Succeeded = True, Revision = 1 \<rparr>, None) \<and>
      cmps b'' = [] \<and> ops b'' = []"
    using cp cm sealed res by auto
  from at_run run o'
  have c4: "run_calls ?b0 [] (?cs @ [Then_call ?o, Commit_call]) =
      Panics ''must call Checkpoint before flush''"
    and c5: "\<exists>b2 i2. run_calls ?b0 [] (?cs @ [Checkpoint_call, Commit_call]) = Returns (b2, i2)"
    by blast+
  from c1 c2 c3 c4 c5 show ?thesis by blast
qed

text \<open>
  What C10 leaves out. Etcd fails the first transaction it is sent. One delete is
  sealed by \<^verbatim>\<open>Checkpoint\<close>; 128 more are added with \<^verbatim>\<open>Then\<close> and \<^verbatim>\<open>Checkpoint\<close> is called
  again. The cap would be exceeded, so \<^verbatim>\<open>Checkpoint\<close> flushes; the flush fails,
  \<^verbatim>\<open>Checkpoint\<close> returns the error, and the 128 deletes are gone: nothing is pending and
  the batch holds the first delete only. \<^verbatim>\<open>Checkpoint\<close> was called after the last \<^verbatim>\<open>Then\<close>,
  so \<^verbatim>\<open>Commit\<close> does not panic; it succeeds, and the transaction it issues does not
  carry the 128 deletes.
\<close>

theorem failed_Checkpoint_drops_its_checkpoint:
  "run_calls (newBatchedTxn txnDo_flaky [leader_fence]) []
     [Then_call [OpDelete ''/root/assign/item-1/us-west/baz/0''],
      Checkpoint_call,
      Then_call (replicate 128 (OpDelete ''/root/assign/item-2/us-west/baz/0''))] =
     Returns ((newBatchedTxn txnDo_flaky [leader_fence])
        \<lparr> cmps := [leader_fence], ops := [OpDelete ''/root/assign/item-1/us-west/baz/0''],
          nextOps := replicate 128 (OpDelete ''/root/assign/item-2/us-west/baz/0'') \<rparr>, []) \<and>
   batchedTxn_Checkpoint ((newBatchedTxn txnDo_flaky [leader_fence])
        \<lparr> cmps := [leader_fence], ops := [OpDelete ''/root/assign/item-1/us-west/baz/0''],
          nextOps := replicate 128 (OpDelete ''/root/assign/item-2/us-west/baz/0'') \<rparr>) [] =
     Returns (Some (Err ''etcdserver: request timed out''),
       (newBatchedTxn txnDo_flaky [leader_fence])
        \<lparr> cmps := [leader_fence], ops := [OpDelete ''/root/assign/item-1/us-west/baz/0''] \<rparr>,
       [([leader_fence], [OpDelete ''/root/assign/item-1/us-west/baz/0''])]) \<and>
   batchedTxn_Commit ((newBatchedTxn txnDo_flaky [leader_fence])
        \<lparr> cmps := [leader_fence], ops := [OpDelete ''/root/assign/item-1/us-west/baz/0''] \<rparr>)
       [([leader_fence], [OpDelete ''/root/assign/item-1/us-west/baz/0''])] =
     Returns ((Some \<lparr> Succeeded = True, Revision = 2 \<rparr>, None),
       newBatchedTxn txnDo_flaky [leader_fence],
       [([leader_fence], [OpDelete ''/root/assign/item-1/us-west/baz/0'']),
        ([leader_fence], [OpDelete ''/root/assign/item-1/us-west/baz/0''])])"
  by (simp add: newBatchedTxn_def batchedTxn_If_def batchedTxn_Then_def batchedTxn_Commit_def
      batchedTxn_Checkpoint_def maxTxnOps_def txnDo_flaky_def leader_fence_def Let_def)

text \<open>
  C5. A transaction issued by \<^verbatim>\<open>Commit\<close> when no \<^verbatim>\<open>Checkpoint\<close> has been called since the
  batch was created (or last flushed) carries no compare at all: the fixed compares,
  the leader fence, are added to a batch only by \<^verbatim>\<open>Checkpoint\<close>.
\<close>

theorem Commit_without_Checkpoint_omits_fixedCmps:
  "run_calls (newBatchedTxn txnDo_ok [leader_fence]) [] [Commit_call] =
     Returns (newBatchedTxn txnDo_ok [leader_fence], [([], [])]) \<and>
   fixedCmps (newBatchedTxn txnDo_ok [leader_fence]) = [leader_fence]"
  by (simp add: txn_defs)

text \<open>
  The rest of C5 holds for every sequence of calls on a fresh \<^verbatim>\<open>batchedTxn\<close>: each
  transaction issued holds whole checkpoints, with the fixed compares in front unless
  it is the empty transaction of a \<^verbatim>\<open>Commit\<close> with nothing checkpointed; and
  \<^verbatim>\<open>Checkpoint\<close> flushes exactly when the batch (fixed compares included) together with
  the new checkpoint would exceed the cap, issuing the batch without the new checkpoint.
\<close>

lemma batch_whole:
  assumes "batch_of b us" "set us \<subseteq> U"
  shows "whole_checkpoints U (fixedCmps b) (cmps b, ops b)"
  unfolding whole_checkpoints_def
proof (intro exI [of _ us] conjI)
  show "set us \<subseteq> U" by fact
  show "fst (cmps b, ops b) = fixedCmps b @ concat (map fst us) \<or>
        fst (cmps b, ops b) = [] \<and> us = []"
    using assms(1) by (simp add: batch_of_def del: concat_eq_Nil_conv)
  show "snd (cmps b, ops b) = concat (map snd us)"
    using assms(1) by (simp add: batch_of_def)
qed

lemma Commit_batch:
  assumes "batch_of b us" "set us \<subseteq> U"
    and "batchedTxn_Commit b issued = Returns (res, b', issued')"
  shows "issued' = issued @ [(cmps b, ops b)] \<and> whole_checkpoints U (fixedCmps b) (cmps b, ops b) \<and>
         fixedCmps b' = fixedCmps b \<and> nextCmps b' = nextCmps b \<and> nextOps b' = nextOps b \<and>
         txnDo b' = txnDo b \<and>
         ((snd res = None \<and> cmps b' = [] \<and> ops b' = []) \<or> (snd res \<noteq> None \<and> b' = b))"
  using assms(3) batch_whole [OF assms(1,2)]
  by (auto simp: batchedTxn_Commit_def split: if_splits sum.splits)

lemma Checkpoint_batch:
  assumes inv: "batch_of b us" "set us \<subseteq> U" "(nextCmps b, nextOps b) \<in> U"
    and run: "batchedTxn_Checkpoint b issued = Returns (err, b', issued')"
  shows "(\<exists>us'. batch_of b' us' \<and> set us' \<subseteq> U) \<and>
         fixedCmps b' = fixedCmps b \<and> nextCmps b' = [] \<and> nextOps b' = [] \<and>
         txnDo b' = txnDo b \<and>
         (issued' = issued \<or>
          (\<exists>t. issued' = issued @ [t] \<and> whole_checkpoints U (fixedCmps b) t \<and>
               fst t = (if cmps b = [] then fixedCmps b else cmps b)))"
proof -
  let ?c1 = "if cmps b = [] then fixedCmps b else cmps b"
  let ?b2 = "b\<lparr> cmps := ?c1, nextCmps := [], nextOps := [] \<rparr>"
  let ?u = "(nextCmps b, nextOps b)"
  have c1: "?c1 = fixedCmps b @ concat (map fst us)" and o1: "ops b = concat (map snd us)"
    using inv(1) by (auto simp: batch_of_def simp del: concat_eq_Nil_conv)
  have b2: "batch_of ?b2 us"
    using c1 o1 by (simp add: batch_of_def del: concat_eq_Nil_conv)
  show ?thesis
  proof (cases "length ?c1 + length (nextCmps b) > maxTxnOps \<or>
                length (ops b) + length (nextOps b) > maxTxnOps")
    case False
    with run have b': "b' = ?b2\<lparr> cmps := ?c1 @ nextCmps b, ops := ops b @ nextOps b \<rparr>"
      and i': "issued' = issued"
      by (simp_all add: Checkpoint_unfold Let_def)
    have "batch_of b' (us @ [?u])"
      unfolding b' using c1 o1 by (simp add: batch_of_def del: concat_eq_Nil_conv)
    moreover have "set (us @ [?u]) \<subseteq> U" using inv(2,3) by simp
    ultimately have "\<exists>us'. batch_of b' us' \<and> set us' \<subseteq> U" by blast
    with b' i' show ?thesis by simp
  next
    case True
    obtain res b3 i3 where cm: "batchedTxn_Commit ?b2 issued = Returns (res, b3, i3)"
      using Commit_sealed [of ?b2 issued] by auto
    from Commit_batch [OF b2 inv(2) cm] have
      i3: "i3 = issued @ [(?c1, ops b)]" and
      wh: "whole_checkpoints U (fixedCmps b) (?c1, ops b)" and
      b3: "fixedCmps b3 = fixedCmps b" "nextCmps b3 = []" "nextOps b3 = []"
        "txnDo b3 = txnDo b" and
      alt: "(snd res = None \<and> cmps b3 = [] \<and> ops b3 = []) \<or> (snd res \<noteq> None \<and> b3 = ?b2)"
      by simp_all
    have issued: "\<exists>t. i3 = issued @ [t] \<and> whole_checkpoints U (fixedCmps b) t \<and> fst t = ?c1"
      using i3 wh by (intro exI [of _ "(?c1, ops b)"]) simp
    obtain r e where res: "res = (r, e)" by (cases res)
    show ?thesis
    proof (cases e)
      case None
      with alt res have e3: "cmps b3 = []" "ops b3 = []" by auto
      from run True cm None res have
        b': "b' = b3\<lparr> cmps := (cmps b3 @ fixedCmps b3) @ nextCmps b,
                       ops := ops b3 @ nextOps b \<rparr>"
        and i': "issued' = i3"
        by (simp_all add: Checkpoint_unfold Let_def)
      have "batch_of b' [?u]"
        unfolding b' using e3 b3 by (simp add: batch_of_def)
      moreover have "set [?u] \<subseteq> U" using inv(3) by simp
      ultimately have "\<exists>us'. batch_of b' us' \<and> set us' \<subseteq> U" by blast
      with b' i' issued b3 show ?thesis by simp
    next
      case (Some e')
      with alt res have e3: "b3 = ?b2" by auto
      from run True cm Some res have b': "b' = b3" and i': "issued' = i3"
        by (simp_all add: Checkpoint_unfold Let_def)
      from b2 inv(2) have "\<exists>us'. batch_of ?b2 us' \<and> set us' \<subseteq> U" by blast
      with b' e3 i' issued show ?thesis by simp
    qed
  qed
qed


lemma run_calls_whole:
  assumes "batch_of b us" "set us \<subseteq> U"
    and "set (sealed_units (nextCmps b) (nextOps b) cs) \<subseteq> U"
    and "\<forall>t \<in> set issued. whole_checkpoints U (fixedCmps b) t"
    and "run_calls b issued cs = Returns (b', issued')"
  shows "\<forall>t \<in> set issued'. whole_checkpoints U (fixedCmps b) t"
  using assms
proof (induction cs arbitrary: b issued us)
  case Nil
  then show ?case by simp
next
  case (Cons c cs)
  show ?case
  proof (cases c)
    case (If_call x)
    have "batch_of (batchedTxn_If b x) us"
      using Cons.prems(1) by (simp add: batch_of_def batchedTxn_If_def)
    from Cons.IH [OF this Cons.prems(2)] Cons.prems(3,4,5) If_call show ?thesis
      by (simp add: batchedTxn_If_def)
  next
    case (Then_call x)
    have "batch_of (batchedTxn_Then b x) us"
      using Cons.prems(1) by (simp add: batch_of_def batchedTxn_Then_def)
    from Cons.IH [OF this Cons.prems(2)] Cons.prems(3,4,5) Then_call show ?thesis
      by (simp add: batchedTxn_Then_def)
  next
    case Checkpoint_call
    with Cons.prems(5) obtain err b1 i1 where
      cp: "batchedTxn_Checkpoint b issued = Returns (err, b1, i1)" and
      rest: "run_calls b1 i1 cs = Returns (b', issued')"
      by (auto split: go.splits)
    from Cons.prems(3) Checkpoint_call have
      u: "(nextCmps b, nextOps b) \<in> U" and units: "set (sealed_units [] [] cs) \<subseteq> U"
      by simp_all
    from Checkpoint_batch [OF Cons.prems(1,2) u cp] obtain us' where
      b1: "batch_of b1 us'" "set us' \<subseteq> U" "fixedCmps b1 = fixedCmps b"
        "nextCmps b1 = []" "nextOps b1 = []" and
      i1: "i1 = issued \<or> (\<exists>t. i1 = issued @ [t] \<and> whole_checkpoints U (fixedCmps b) t)"
      by auto
    from i1 Cons.prems(4) have "\<forall>t \<in> set i1. whole_checkpoints U (fixedCmps b1) t"
      using b1(3) by auto
    from Cons.IH [OF b1(1,2) _ this rest] units b1 show ?thesis by simp
  next
    case Commit_call
    with Cons.prems(5) obtain res b1 i1 where
      cm: "batchedTxn_Commit b issued = Returns (res, b1, i1)" and
      rest: "run_calls b1 i1 cs = Returns (b', issued')"
      by (auto split: go.splits)
    from Commit_batch [OF Cons.prems(1,2) cm] have
      i1: "i1 = issued @ [(cmps b, ops b)]"
        "whole_checkpoints U (fixedCmps b) (cmps b, ops b)" and
      b1: "fixedCmps b1 = fixedCmps b" "nextCmps b1 = nextCmps b" "nextOps b1 = nextOps b" and
      alt: "(snd res = None \<and> cmps b1 = [] \<and> ops b1 = []) \<or> (snd res \<noteq> None \<and> b1 = b)"
      by simp_all
    have "\<exists>us'. batch_of b1 us' \<and> set us' \<subseteq> U"
    proof (cases "snd res")
      case None
      with alt have "batch_of b1 []" by (auto simp: batch_of_def)
      then show ?thesis by (intro exI [of _ "[]"]) simp
    next
      case (Some e)
      with alt Cons.prems(1,2) show ?thesis by auto
    qed
    then obtain us' where us': "batch_of b1 us'" "set us' \<subseteq> U" by blast
    from i1 Cons.prems(4) b1 have "\<forall>t \<in> set i1. whole_checkpoints U (fixedCmps b1) t"
      by auto
    from Cons.IH [OF us' _ this rest] Cons.prems(3) Commit_call b1 show ?thesis by simp
  qed
qed

lemma batchedTxn_issues_whole_checkpoints:
  assumes "run_calls (newBatchedTxn do fixed) [] cs = Returns (b', issued')"
  shows "\<forall>t \<in> set issued'. whole_checkpoints (set (sealed_units [] [] cs)) fixed t"
proof -
  let ?b = "newBatchedTxn do fixed"
  have "batch_of ?b []" by (simp add: batch_of_def newBatchedTxn_def)
  from run_calls_whole [OF this, of "set (sealed_units [] [] cs)" cs "[]"] assms
  show ?thesis by (simp add: newBatchedTxn_def)
qed

lemma Checkpoint_flushes_over_cap:
  assumes "batchedTxn_Checkpoint b issued = Returns (err, b', issued')"
  shows "issued' =
    (if length (if cmps b = [] then fixedCmps b else cmps b) + length (nextCmps b) > maxTxnOps \<or>
        length (ops b) + length (nextOps b) > maxTxnOps
     then issued @ [(if cmps b = [] then fixedCmps b else cmps b, ops b)]
     else issued)"
  using assms
  by (auto simp: Checkpoint_unfold batchedTxn_Commit_def Let_def
      split: if_splits sum.splits)

section \<open>Properties of convergence\<close>
















text \<open>
  The same convergence through a \<^verbatim>\<open>batchedTxn\<close> with the leader fence: nothing is
  issued while converging, and the \<^verbatim>\<open>Commit\<close> that follows issues one transaction, the
  fence and the checkpoint of the dead Assignment together.
\<close>

lemma converge_through_batchedTxn:
  "(case converge batched_checkpointTxn no_build ''/root'' fixture_items fixture_assignments []
           fixture_cursors (newBatchedTxn txnDo_ok [leader_fence], []) of
      Returns (None, (b, issued)) \<Rightarrow>
        issued = [] \<and>
        (case batchedTxn_Commit b issued of
           Returns (res, b', issued') \<Rightarrow>
             issued' =
               [([leader_fence,
                  CreateRevision_eq ''/root/items/item-missing'' 0,
                  ModRevision_eq ''/root/assign/item-missing/us-west/baz/0'' 6],
                 [OpDelete ''/root/assign/item-missing/us-west/baz/0''])]
         | _ \<Rightarrow> False)
    | _ \<Rightarrow> False)"
  by (simp add: converge_def no_build_def fixture_items_def fixture_assignments_def
      fixture_cursors_def assignment_kv_def ItemKey_def modRevisionUnchanged_def
      batched_checkpointTxn_def txn_defs)

section \<open>Properties of the keyspace header\<close>

text \<open>The model of \<^verbatim>\<open>patchHeader\<close> passes the checks of \<^verbatim>\<open>TestHeaderPatching\<close>.\<close>

lemma patchHeader_TestHeaderPatching:
  "patchHeader \<lparr> ClusterId = 0, MemberId = 0, Revision = 0, RaftTerm = 0 \<rparr>
     \<lparr> ClusterId = 8675309, MemberId = 111111, Revision = 123, RaftTerm = 232323 \<rparr> True =
     Inr \<lparr> ClusterId = 8675309, MemberId = 111111, Revision = 123, RaftTerm = 232323 \<rparr>"
  "patchHeader \<lparr> ClusterId = 8675309, MemberId = 111111, Revision = 123, RaftTerm = 232323 \<rparr>
     \<lparr> ClusterId = 8675309, MemberId = 222222, Revision = 123, RaftTerm = 232323 \<rparr> True =
     Inr \<lparr> ClusterId = 8675309, MemberId = 222222, Revision = 123, RaftTerm = 232323 \<rparr>"
  "patchHeader \<lparr> ClusterId = 8675309, MemberId = 222222, Revision = 123, RaftTerm = 232323 \<rparr>
     \<lparr> ClusterId = 8675309, MemberId = 222222, Revision = 122, RaftTerm = 232323 \<rparr> True =
     Inl (Err ''etcd Revision mismatch (expected = %d, got %d)'')"
  "patchHeader \<lparr> ClusterId = 8675309, MemberId = 222222, Revision = 123, RaftTerm = 232323 \<rparr>
     \<lparr> ClusterId = 8675309, MemberId = 333333, Revision = 124, RaftTerm = 3434343 \<rparr> False =
     Inr \<lparr> ClusterId = 8675309, MemberId = 333333, Revision = 124, RaftTerm = 3434343 \<rparr>"
  "patchHeader \<lparr> ClusterId = 8675309, MemberId = 333333, Revision = 124, RaftTerm = 3434343 \<rparr>
     \<lparr> ClusterId = 8675309, MemberId = 333333, Revision = 124, RaftTerm = 3434343 \<rparr> False =
     Inl (Err ''etcd Revision mismatch (expected > %d, got %d)'')"
  "patchHeader \<lparr> ClusterId = 8675309, MemberId = 333333, Revision = 124, RaftTerm = 3434343 \<rparr>
     \<lparr> ClusterId = 1337, MemberId = 333333, Revision = 125, RaftTerm = 3434343 \<rparr> False =
     Inl (Err ''etcd ClusterID mismatch (expected %d, got %d)'')"
  by (simp_all add: patchHeader_def)











end
